theory Spec2Isabelle
  imports Complex_Main
begin

section \<open>The scene: objects, bones, modifiers, vertex groups\<close>

text \<open>
  The script \<^verbatim>\<open>Editor/BlenderScripts/apply_costume.py\<close> works on the objects of a
  Blender scene. Only the attributes the script reads or writes are modelled, plus the
  data the claims speak about (bind transforms of bones, weights of vertices), which the
  script carries along.

  Floating-point attributes (scale, location, weights, transforms) are \<open>real\<close>: the
  script never computes with them, it stores constants, copies \<open>global_scale\<close> and
  compares it with \<open>1.0\<close>.

  A reference to another object (\<open>parent\<close>, \<open>modifier.object\<close>) is the name of that
  object, \<open>None\<close> being Python's \<open>None\<close>; Blender keeps the names of the objects of
  \<^verbatim>\<open>bpy.data.objects\<close> distinct, so a name identifies an object. The parent of a bone
  is its position in the list of the bones of its armature, so that renaming a bone
  leaves the hierarchy as it is. The console log of the script is not modelled: the
  result of a run is the scene that is exported.
\<close>

datatype object_type = ARMATURE | MESH | OTHER

type_synonym vec3 = "real \<times> real \<times> real"

record transform =
  translation :: vec3
  rotation :: "real \<times> real \<times> real \<times> real"
  bind_scale :: vec3

record bone =
  bone_name :: string
  bone_parent :: "nat option"
  bind_local :: transform

datatype modifier_type = ARMATURE_MODIFIER | OTHER_MODIFIER

record modifier =
  mod_type :: modifier_type
  mod_object :: "string option"

text \<open>
  \<open>vertex_groups\<close> lists the names of the groups, a group's index being its position;
  \<open>vertices\<close> gives, for each vertex, its \<open>(group index, weight)\<close> pairs, as Blender
  stores them (\<open>vertex.groups[i].group\<close>, \<open>vertex.groups[i].weight\<close>).
\<close>

record object =
  obj_name :: string
  obj_type :: object_type
  bones :: "bone list"
  modifiers :: "modifier list"
  vertex_groups :: "string list"
  vertices :: "(nat \<times> real) list list"
  parent :: "string option"
  scale :: vec3
  location :: vec3
  hide_viewport :: bool
  hide_render :: bool
  selected :: bool

section \<open>Inputs of a run\<close>

text \<open>
  The two JSON files. A key that may be absent is an \<open>option\<close>: the script tests
  \<^verbatim>\<open>'boneMapping' in mapping_data\<close>, \<^verbatim>\<open>'avatarBoneId' in mapping\<close> and
  \<^verbatim>\<open>'costumeBoneId' in mapping\<close>, and reads every setting with
  \<^verbatim>\<open>settings.get(key, default)\<close>.
\<close>

record mapping_entry =
  avatarBoneId :: "string option"
  costumeBoneId :: "string option"

record mapping_data =
  boneMapping :: "mapping_entry list option"

record settings =
  globalScale :: "real option"
  detectStructuralDifferences :: "bool option"
  adjustScale :: "bool option"
  adjustRotation :: "bool option"
  adjustBindPoses :: "bool option"
  redistributeWeights :: "bool option"

text \<open>
  The script assigns to the \<open>name\<close> of a bone (line 142) and of a vertex group
  (line 166). What is stored is decided by Blender, not by the script: Blender keeps the
  names of the bones of an armature, and of the vertex groups of an object, distinct, and
  may store another name than the one assigned. The two setters are therefore part of
  what a run is given: \<open>stored_bone_name names i x\<close> is the name that bone \<open>i\<close> has after
  \<^verbatim>\<open>bone.name = x\<close> when \<open>names\<close> are the names of the bones of the armature just
  before, and \<open>stored_group_name\<close> is the same for the vertex groups of an object.
  The theorems about \<open>run\<close> hold for every pair of setters.
\<close>

record name_setters =
  stored_bone_name :: "string list \<Rightarrow> nat \<Rightarrow> string \<Rightarrow> string"
  stored_group_name :: "string list \<Rightarrow> nat \<Rightarrow> string \<Rightarrow> string"

text \<open>
  What the outside world gives to one run, after the command line has been read:
  the objects selected after each FBX import (\<open>None\<close> when the import raises), the
  contents of the two JSON files (\<open>None\<close> when opening or parsing raises), whether
  the FBX export at the end goes through, and the two name setters.
\<close>

record input =
  avatar_import :: "object list option"
  costume_import :: "object list option"
  mapping_file :: "mapping_data option"
  settings_file :: "settings option"
  export_ok :: bool
  setters :: name_setters

text \<open>
  Every way the script stops without a result: the \<^verbatim>\<open>sys.exit(1)\<close> calls, in the
  order of the script, and the \<^verbatim>\<open>AttributeError\<close> of line 156, where
  \<^verbatim>\<open>modifier.object.name\<close> is read for the log message and \<^verbatim>\<open>modifier.object\<close>
  may be \<open>None\<close>.
\<close>

datatype error =
    AvatarImportError
  | AvatarNotImported
  | AvatarArmatureNotFound
  | CostumeImportError
  | CostumeNotImported
  | CostumeContentNotFound
  | FileLoadError
  | ModifierObjectNone
  | ExportError

section \<open>The state of the script\<close>

text \<open>
  The objects of \<^verbatim>\<open>bpy.data.objects\<close>, split by the variable of the script that holds
  them: \<open>avatar_armature\<close>, \<open>costume_armature\<close> and \<open>costume_meshes\<close> are the script's
  variables; \<open>avatar_rest\<close> and \<open>costume_rest\<close> are the imported objects that none of
  these variables holds. Distinct components are distinct Python objects, so mutating
  an object through a variable is updating its component.
\<close>

record scene_state =
  avatar_armature :: object
  avatar_rest :: "object list"
  costume_armature :: "object option"
  costume_meshes :: "object list"
  costume_rest :: "object list"

text \<open>The bone mapping dictionary and the six settings, as extracted in lines 108-123.\<close>

record config =
  bone_mapping :: "string \<rightharpoonup> string"
  global_scale :: real
  detect_structural_differences :: bool
  adjust_scale :: bool
  adjust_rotation :: bool
  adjust_bind_poses :: bool
  redistribute_weights :: bool

definition data_objects :: "scene_state \<Rightarrow> object list" where
  "data_objects st =
     avatar_armature st # avatar_rest st
       @ (case costume_armature st of None \<Rightarrow> [] | Some a \<Rightarrow> [a])
       @ costume_meshes st @ costume_rest st"

section \<open>Loading (lines 43-123)\<close>

text \<open>
  Lines 56-60: the first object of type \<open>ARMATURE\<close> among the avatar objects
  (the loop breaks there). The second component collects the other avatar objects.
\<close>

fun find_avatar_armature :: "object list \<Rightarrow> object list \<Rightarrow> (object \<times> object list) option" where
  "find_avatar_armature [] seen = None"
| "find_avatar_armature (obj # objs) seen =
     (if obj_type obj = ARMATURE then Some (obj, seen @ objs)
      else find_avatar_armature objs (seen @ [obj]))"

text \<open>
  Lines 81-87: the loop has no \<open>break\<close>, so the last armature wins; meshes are appended
  in order. The third component collects the costume objects that end up in neither
  variable.
\<close>

fun find_costume ::
  "object list \<Rightarrow> object option \<times> object list \<times> object list
     \<Rightarrow> object option \<times> object list \<times> object list" where
  "find_costume [] acc = acc"
| "find_costume (obj # objs) (arm, meshes, rest) =
     (if obj_type obj = ARMATURE
        then find_costume objs
               (Some obj, meshes, (case arm of None \<Rightarrow> rest | Some a \<Rightarrow> rest @ [a]))
      else if obj_type obj = MESH
        then find_costume objs (arm, meshes @ [obj], rest)
      else find_costume objs (arm, meshes, rest @ [obj]))"

text \<open>Line 72: the selected objects that are not avatar objects (objects are compared
  by their names).\<close>

definition costume_objects_of :: "object list \<Rightarrow> object list \<Rightarrow> object list" where
  "costume_objects_of avatar_objects selected_objects =
     filter (\<lambda>obj. obj_name obj \<notin> obj_name ` set avatar_objects) selected_objects"

text \<open>Lines 109-113: later entries overwrite earlier ones with the same key.\<close>

definition add_mapping :: "(string \<rightharpoonup> string) \<Rightarrow> mapping_entry \<Rightarrow> (string \<rightharpoonup> string)" where
  "add_mapping bm mapping =
     (case avatarBoneId mapping of
        None \<Rightarrow> bm
      | Some a \<Rightarrow> (case costumeBoneId mapping of None \<Rightarrow> bm | Some c \<Rightarrow> bm(c \<mapsto> a)))"

definition process_bone_mapping :: "mapping_data \<Rightarrow> (string \<rightharpoonup> string)" where
  "process_bone_mapping md =
     (case boneMapping md of
        None \<Rightarrow> Map.empty
      | Some entries \<Rightarrow> foldl add_mapping Map.empty entries)"

definition get_or :: "'a option \<Rightarrow> 'a \<Rightarrow> 'a" where
  "get_or v d = (case v of None \<Rightarrow> d | Some x \<Rightarrow> x)"

definition extract_config :: "mapping_data \<Rightarrow> settings \<Rightarrow> config" where
  "extract_config md s =
     \<lparr> bone_mapping = process_bone_mapping md,
       global_scale = get_or (globalScale s) 1,
       detect_structural_differences = get_or (detectStructuralDifferences s) True,
       adjust_scale = get_or (adjustScale s) True,
       adjust_rotation = get_or (adjustRotation s) True,
       adjust_bind_poses = get_or (adjustBindPoses s) True,
       redistribute_weights = get_or (redistributeWeights s) True \<rparr>"

definition load :: "input \<Rightarrow> error + (scene_state \<times> config)" where
  "load inp =
     (case avatar_import inp of
        None \<Rightarrow> Inl AvatarImportError
      | Some avatar_objects \<Rightarrow>
          if avatar_objects = [] then Inl AvatarNotImported
          else (case find_avatar_armature avatar_objects [] of
            None \<Rightarrow> Inl AvatarArmatureNotFound
          | Some (av, av_rest) \<Rightarrow>
              (case costume_import inp of
                 None \<Rightarrow> Inl CostumeImportError
               | Some selected_objects \<Rightarrow>
                   let costume_objects = costume_objects_of avatar_objects selected_objects in
                   if costume_objects = [] then Inl CostumeNotImported
                   else (case find_costume costume_objects (None, [], []) of
                     (arm, meshes, rest) \<Rightarrow>
                       if arm = None \<and> meshes = [] then Inl CostumeContentNotFound
                       else (case mapping_file inp of
                         None \<Rightarrow> Inl FileLoadError
                       | Some md \<Rightarrow>
                           (case settings_file inp of
                              None \<Rightarrow> Inl FileLoadError
                            | Some s \<Rightarrow>
                                Inr (\<lparr> avatar_armature = av, avatar_rest = av_rest,
                                       costume_armature = arm, costume_meshes = meshes,
                                       costume_rest = rest \<rparr>,
                                     extract_config md s)))))))"

section \<open>Processing (lines 133-196)\<close>

definition apply_global_scale :: "config \<Rightarrow> object \<Rightarrow> object" where
  "apply_global_scale c obj =
     (if adjust_scale c \<and> global_scale c \<noteq> 1
      then obj\<lparr>scale := (global_scale c, global_scale c, global_scale c)\<rparr>
      else obj)"

subsection \<open>The costume armature (lines 134-147)\<close>

text \<open>
  When a bone gets another name, Blender gives that name to the vertex group that had
  the bone's old name on every object that is deformed by the armature through an
  armature modifier. Among the costume objects only the meshes have vertex groups.
\<close>

fun rename_first :: "string \<Rightarrow> string \<Rightarrow> string list \<Rightarrow> string list" where
  "rename_first old new [] = []"
| "rename_first old new (n # ns) = (if n = old then new # ns else n # rename_first old new ns)"

definition uses_armature :: "string \<Rightarrow> object \<Rightarrow> bool" where
  "uses_armature arm_name obj =
     list_ex (\<lambda>m. mod_type m = ARMATURE_MODIFIER \<and> mod_object m = Some arm_name) (modifiers obj)"

definition follow_bone_rename :: "string \<Rightarrow> string \<Rightarrow> string \<Rightarrow> object \<Rightarrow> object" where
  "follow_bone_rename arm_name old new obj =
     (if uses_armature arm_name obj
      then obj\<lparr>vertex_groups := rename_first old new (vertex_groups obj)\<rparr>
      else obj)"

text \<open>Line 142, \<^verbatim>\<open>bone.name = avatar_bone_name\<close>, for the bone at position \<open>i\<close>.\<close>

definition set_bone_name ::
  "name_setters \<Rightarrow> nat \<Rightarrow> string \<Rightarrow> object \<times> object list \<Rightarrow> object \<times> object list" where
  "set_bone_name ns i x s =
     (let arm = fst s;
          old = bone_name (bones arm ! i);
          new = stored_bone_name ns (map bone_name (bones arm)) i x
      in (arm\<lparr>bones := (bones arm)[i := (bones arm ! i)\<lparr>bone_name := new\<rparr>]\<rparr>,
          map (follow_bone_rename (obj_name arm) old new) (snd s)))"

text \<open>
  Lines 138-142: the loop over the bones, by position; the test of line 139 reads the
  name the bone has when the loop reaches it. The state is the costume armature and the
  costume meshes.
\<close>

definition rename_bone_at ::
  "name_setters \<Rightarrow> (string \<rightharpoonup> string) \<Rightarrow> object \<times> object list \<Rightarrow> nat
     \<Rightarrow> object \<times> object list" where
  "rename_bone_at ns bm s i =
     (case bm (bone_name (bones (fst s) ! i)) of
        None \<Rightarrow> s
      | Some avatar_bone_name \<Rightarrow> set_bone_name ns i avatar_bone_name s)"

definition rename_bones ::
  "name_setters \<Rightarrow> (string \<rightharpoonup> string) \<Rightarrow> object \<times> object list \<Rightarrow> object \<times> object list" where
  "rename_bones ns bm s = foldl (rename_bone_at ns bm) s [0..<length (bones (fst s))]"

definition process_costume_armature ::
  "name_setters \<Rightarrow> config \<Rightarrow> object \<times> object list \<Rightarrow> object \<times> object list" where
  "process_costume_armature ns c s =
     (let s' = rename_bones ns (bone_mapping c) s
      in (apply_global_scale c (fst s'), snd s'))"

subsection \<open>The costume meshes (lines 151-181)\<close>

text \<open>
  Lines 153-157. The log message reads \<^verbatim>\<open>modifier.object.name\<close> before the
  assignment, which raises when the modifier has no object.
\<close>

fun update_modifiers :: "bool \<Rightarrow> string \<Rightarrow> modifier list \<Rightarrow> error + modifier list" where
  "update_modifiers has_costume_armature av [] = Inr []"
| "update_modifiers has_costume_armature av (m # ms) =
     (if mod_type m = ARMATURE_MODIFIER \<and> has_costume_armature
      then (case mod_object m of
              None \<Rightarrow> Inl ModifierObjectNone
            | Some old \<Rightarrow>
                (case update_modifiers has_costume_armature av ms of
                   Inl e \<Rightarrow> Inl e
                 | Inr ms' \<Rightarrow> Inr (m\<lparr>mod_object := Some av\<rparr> # ms')))
      else (case update_modifiers has_costume_armature av ms of
              Inl e \<Rightarrow> Inl e
            | Inr ms' \<Rightarrow> Inr (m # ms')))"

text \<open>
  Lines 162-167: the loop over the vertex groups of a mesh, by position; the test of
  line 163 reads the name the group has when the loop reaches it, and line 166 assigns
  the mapped name.
\<close>

definition rename_group_at ::
  "name_setters \<Rightarrow> (string \<rightharpoonup> string) \<Rightarrow> string list \<Rightarrow> nat \<Rightarrow> string list" where
  "rename_group_at ns bm groups i =
     (case bm (groups ! i) of
        None \<Rightarrow> groups
      | Some avatar_bone_name \<Rightarrow> groups[i := stored_group_name ns groups i avatar_bone_name])"

definition rename_groups ::
  "name_setters \<Rightarrow> (string \<rightharpoonup> string) \<Rightarrow> string list \<Rightarrow> string list" where
  "rename_groups ns bm groups = foldl (rename_group_at ns bm) groups [0..<length groups]"

text \<open>
  Lines 152-177, the body of the loop over the costume meshes. \<open>avatar_armature\<close> is
  never \<open>None\<close> here, so the test of line 160 is the test for a costume armature.
\<close>

definition process_mesh ::
  "name_setters \<Rightarrow> config \<Rightarrow> object \<Rightarrow> object option \<Rightarrow> object \<Rightarrow> error + object" where
  "process_mesh ns c av arm mesh_obj =
     (case update_modifiers (arm \<noteq> None) (obj_name av) (modifiers mesh_obj) of
        Inl e \<Rightarrow> Inl e
      | Inr ms \<Rightarrow>
          let m1 = mesh_obj\<lparr>modifiers := ms\<rparr>;
              m2 = (if arm \<noteq> None
                    then m1\<lparr>vertex_groups := rename_groups ns (bone_mapping c) (vertex_groups m1)\<rparr>
                    else m1);
              m3 = m2\<lparr>parent := Some (obj_name av)\<rparr>
          in Inr (apply_global_scale c m3))"

fun process_meshes ::
  "name_setters \<Rightarrow> config \<Rightarrow> object \<Rightarrow> object option \<Rightarrow> object list \<Rightarrow> error + object list" where
  "process_meshes ns c av arm [] = Inr []"
| "process_meshes ns c av arm (mesh_obj # rest) =
     (case process_mesh ns c av arm mesh_obj of
        Inl e \<Rightarrow> Inl e
      | Inr m \<Rightarrow>
          (case process_meshes ns c av arm rest of
             Inl e \<Rightarrow> Inl e
           | Inr ms \<Rightarrow> Inr (m # ms)))"

subsection \<open>The whole run\<close>

text \<open>Lines 189-196: every remaining object is made visible, then selected or not.\<close>

definition show_and_select :: "bool \<Rightarrow> object \<Rightarrow> object" where
  "show_and_select sel obj = obj\<lparr>hide_viewport := False, hide_render := False, selected := sel\<rparr>"

text \<open>
  The costume armature and the costume meshes after lines 134-147; without a costume
  armature nothing happens there.
\<close>

definition after_armature ::
  "name_setters \<Rightarrow> config \<Rightarrow> scene_state \<Rightarrow> object option \<times> object list" where
  "after_armature ns c st =
     (case costume_armature st of
        None \<Rightarrow> (None, costume_meshes st)
      | Some arm \<Rightarrow>
          (let s = process_costume_armature ns c (arm, costume_meshes st)
           in (Some (fst s), snd s)))"

definition process :: "name_setters \<Rightarrow> config \<Rightarrow> scene_state \<Rightarrow> error + scene_state" where
  "process ns c st =
     (let s = after_armature ns c st in
      case process_meshes ns c (avatar_armature st) (fst s) (snd s) of
        Inl e \<Rightarrow> Inl e
      | Inr meshes \<Rightarrow>
          Inr \<lparr> avatar_armature = show_and_select True (avatar_armature st),
                avatar_rest = map (show_and_select False) (avatar_rest st),
                costume_armature = None,
                costume_meshes =
                  map (show_and_select True) (map (\<lambda>m. m\<lparr>location := (0, 0, 0)\<rparr>) meshes),
                costume_rest = map (show_and_select False) (costume_rest st) \<rparr>)"

text \<open>
  Lines 203-217: the FBX export writes the selected objects of type \<open>ARMATURE\<close> or
  \<open>MESH\<close> (\<open>use_selection=True\<close>, \<open>object_types={'ARMATURE', 'MESH'}\<close>).
\<close>

definition exported :: "scene_state \<Rightarrow> object list" where
  "exported st =
     filter (\<lambda>obj. selected obj \<and> (obj_type obj = ARMATURE \<or> obj_type obj = MESH))
       (data_objects st)"

definition run :: "input \<Rightarrow> error + scene_state" where
  "run inp =
     (case load inp of
        Inl e \<Rightarrow> Inl e
      | Inr (st, c) \<Rightarrow>
          (case process (setters inp) c st of
             Inl e \<Rightarrow> Inl e
           | Inr st' \<Rightarrow> if export_ok inp then Inr st' else Inl ExportError))"

text \<open>The influences of a vertex by name, and the total weight of a vertex.\<close>

definition group_name :: "object \<Rightarrow> nat \<Rightarrow> string option" where
  "group_name mesh_obj g =
     (if g < length (vertex_groups mesh_obj) then Some (vertex_groups mesh_obj ! g) else None)"

definition influences :: "object \<Rightarrow> (nat \<times> real) list \<Rightarrow> (string option \<times> real) list" where
  "influences mesh_obj v = map (\<lambda>gw. (group_name mesh_obj (fst gw), snd gw)) v"

definition weight_sum :: "(nat \<times> real) list \<Rightarrow> real" where
  "weight_sum v = sum_list (map snd v)"

text \<open>
  Frame conditions, for the proofs: what a list of group names, and a list of bones,
  keeps when only items whose name is a key of the mapping get another name.
\<close>

definition groups_frame :: "(string \<rightharpoonup> string) \<Rightarrow> string list \<Rightarrow> string list \<Rightarrow> bool" where
  "groups_frame bm gs gs' =
     (length gs' = length gs \<and> (\<forall>p<length gs. bm (gs ! p) = None \<longrightarrow> gs' ! p = gs ! p))"

definition mesh_frame :: "(string \<rightharpoonup> string) \<Rightarrow> object \<Rightarrow> object \<Rightarrow> bool" where
  "mesh_frame bm m m' =
     (m' = m\<lparr>vertex_groups := vertex_groups m'\<rparr>
      \<and> groups_frame bm (vertex_groups m) (vertex_groups m'))"

definition bones_frame :: "(string \<rightharpoonup> string) \<Rightarrow> bone list \<Rightarrow> bone list \<Rightarrow> bool" where
  "bones_frame bm bs bs' =
     (length bs' = length bs
      \<and> map bind_local bs' = map bind_local bs
      \<and> map bone_parent bs' = map bone_parent bs
      \<and> (\<forall>j<length bs. bm (bone_name (bs ! j)) = None \<longrightarrow> bs' ! j = bs ! j))"

definition state_frame ::
  "(string \<rightharpoonup> string) \<Rightarrow> object \<times> object list \<Rightarrow> object \<times> object list \<Rightarrow> bool" where
  "state_frame bm s s' =
     (fst s' = (fst s)\<lparr>bones := bones (fst s')\<rparr>
      \<and> bones_frame bm (bones (fst s)) (bones (fst s'))
      \<and> list_all2 (mesh_frame bm) (snd s) (snd s'))"

section \<open>Blender's name setters\<close>

text \<open>
  The setters of Blender, used for the example runs below. An assigned name that no
  other item has is stored as it is; otherwise the first free name among \<open>left.001\<close>,
  \<open>left.002\<close>, ... is stored, where \<open>left\<close> is the assigned name without a numeric suffix
  \<open>.NNN\<close>, counting on from that suffix. An empty name stands for the default name.
  Assigning to a bone the name it has changes nothing; another name is made unique among
  all the bones of the armature. A vertex group's name is made unique among the other
  groups of the object. (Blender also cuts a name after 63 bytes; the names of the
  examples are shorter.)
\<close>

definition is_digit :: "char \<Rightarrow> bool" where
  "is_digit c = (c \<in> set ''0123456789'')"

definition digit_value :: "char \<Rightarrow> nat" where
  "digit_value c = length (takeWhile (\<lambda>d. d \<noteq> c) ''0123456789'')"

definition split_name_number :: "string \<Rightarrow> string \<times> nat" where
  "split_name_number name =
     (if 1 < length name \<and> last name = CHR ''.'' then (name, 0)
      else (case dropWhile is_digit (rev name) of
              [] \<Rightarrow> (name, 0)
            | c # left \<Rightarrow>
                if c = CHR ''.''
                then (rev left,
                      foldl (\<lambda>a d. 10 * a + digit_value d) 0 (rev (takeWhile is_digit (rev name))))
                else (name, 0)))"

fun decimal :: "nat \<Rightarrow> nat \<Rightarrow> string" where
  "decimal 0 n = []"
| "decimal (Suc fuel) n =
     (if n < 10 then [''0123456789'' ! n]
      else decimal fuel (n div 10) @ [''0123456789'' ! (n mod 10)])"

definition number_suffix :: "nat \<Rightarrow> string" where
  "number_suffix n =
     (let d = decimal (Suc n) n in CHR ''.'' # replicate (3 - length d) (CHR ''0'') @ d)"

definition unique_name :: "string \<Rightarrow> string list \<Rightarrow> string \<Rightarrow> string" where
  "unique_name default_name taken x =
     (let name = (if x = [] then default_name else x) in
      if name \<notin> set taken then name
      else (case split_name_number name of
        (left, number) \<Rightarrow>
          (case find (\<lambda>candidate. candidate \<notin> set taken)
                  (map (\<lambda>n. left @ number_suffix n)
                     [Suc number..<Suc number + Suc (length taken)]) of
             None \<Rightarrow> name
           | Some candidate \<Rightarrow> candidate)))"

definition blender_setters :: name_setters where
  "blender_setters =
     \<lparr> stored_bone_name =
         (\<lambda>names i x. if x = names ! i then x else unique_name ''Bone'' names x),
       stored_group_name =
         (\<lambda>names i x. unique_name ''Group'' (take i names @ drop (Suc i) names) x) \<rparr>"

section \<open>Example scenes\<close>

text \<open>
  An avatar with the bones \<open>Hip\<close> and \<open>Chest\<close> and a body mesh; a costume with the bones
  \<open>Hip\<close>, \<open>Chest\<close> and \<open>Sleeve\<close> (parent chain \<open>Sleeve \<rightarrow> Chest \<rightarrow> Hip\<close>) and a shirt
  mesh. The mapping sends \<open>Hip\<close> to \<open>Hip\<close> and \<open>Chest\<close> to \<open>Chest\<close>; \<open>Sleeve\<close> is
  unmapped. The first vertex of the shirt is held by \<open>Sleeve\<close> alone, the second half
  by \<open>Chest\<close> and half by \<open>Sleeve\<close>.
\<close>

definition new_object :: "string \<Rightarrow> object_type \<Rightarrow> object" where
  "new_object n t =
     \<lparr> obj_name = n, obj_type = t, bones = [], modifiers = [], vertex_groups = [],
       vertices = [], parent = None, scale = (1, 1, 1), location = (0, 0, 0),
       hide_viewport = False, hide_render = False, selected = True \<rparr>"

definition new_bone :: "string \<Rightarrow> nat option \<Rightarrow> vec3 \<Rightarrow> bone" where
  "new_bone n p t =
     \<lparr> bone_name = n, bone_parent = p,
       bind_local = \<lparr> translation = t, rotation = (1, 0, 0, 0), bind_scale = (1, 1, 1) \<rparr> \<rparr>"

definition ex_avatar_armature :: object where
  "ex_avatar_armature =
     (new_object ''Armature'' ARMATURE)
       \<lparr> bones := [new_bone ''Hip'' None (0, 0, 10),
                   new_bone ''Chest'' (Some 0) (0, 0, 5)] \<rparr>"

definition ex_avatar_body :: object where
  "ex_avatar_body =
     (new_object ''Body'' MESH)
       \<lparr> modifiers := [\<lparr> mod_type = ARMATURE_MODIFIER, mod_object = Some ''Armature'' \<rparr>],
         vertex_groups := [''Hip'', ''Chest''],
         vertices := [[(0, 1)], [(0, 1/4), (1, 3/4)]],
         parent := Some ''Armature'' \<rparr>"

definition ex_costume_armature :: object where
  "ex_costume_armature =
     (new_object ''Armature.001'' ARMATURE)
       \<lparr> bones := [new_bone ''Hip'' None (0, 0, 11),
                   new_bone ''Chest'' (Some 0) (0, 0, 4),
                   new_bone ''Sleeve'' (Some 1) (2, 0, 0)] \<rparr>"

definition ex_shirt :: object where
  "ex_shirt =
     (new_object ''Shirt'' MESH)
       \<lparr> modifiers := [\<lparr> mod_type = ARMATURE_MODIFIER, mod_object = Some ''Armature.001'' \<rparr>],
         vertex_groups := [''Hip'', ''Chest'', ''Sleeve''],
         vertices := [[(2, 1)], [(1, 1/2), (2, 1/2)]],
         parent := Some ''Armature.001'',
         location := (0, 3, 0) \<rparr>"

definition ex_mapping :: mapping_data where
  "ex_mapping =
     \<lparr> boneMapping = Some
         [\<lparr> avatarBoneId = Some ''Hip'', costumeBoneId = Some ''Hip'' \<rparr>,
          \<lparr> avatarBoneId = Some ''Chest'', costumeBoneId = Some ''Chest'' \<rparr>] \<rparr>"

definition ex_settings :: settings where
  "ex_settings =
     \<lparr> globalScale = Some 1, detectStructuralDifferences = Some True,
       adjustScale = Some True, adjustRotation = Some True,
       adjustBindPoses = Some True, redistributeWeights = Some True \<rparr>"

definition ex_input :: input where
  "ex_input =
     \<lparr> avatar_import = Some [ex_avatar_body, ex_avatar_armature],
       costume_import = Some [ex_costume_armature, ex_shirt],
       mapping_file = Some ex_mapping,
       settings_file = Some ex_settings,
       export_ok = True,
       setters = blender_setters \<rparr>"

definition ex_loaded :: scene_state where
  "ex_loaded =
     \<lparr> avatar_armature = ex_avatar_armature, avatar_rest = [ex_avatar_body],
       costume_armature = Some ex_costume_armature, costume_meshes = [ex_shirt],
       costume_rest = [] \<rparr>"

definition ex_config :: config where
  "ex_config = extract_config ex_mapping ex_settings"

definition ex_shirt_final :: object where
  "ex_shirt_final =
     ex_shirt
       \<lparr> modifiers := [\<lparr> mod_type = ARMATURE_MODIFIER, mod_object = Some ''Armature'' \<rparr>],
         parent := Some ''Armature'',
         location := (0, 0, 0) \<rparr>"

definition ex_final :: scene_state where
  "ex_final =
     \<lparr> avatar_armature = ex_avatar_armature,
       avatar_rest = [ex_avatar_body\<lparr>selected := False\<rparr>],
       costume_armature = None, costume_meshes = [ex_shirt_final],
       costume_rest = [] \<rparr>"

text \<open>
  Variants: a costume file with the shirt only, bound to no armature; an avatar file
  with the body only; a costume file with a light only; a mapping that sends \<open>Sleeve\<close>
  to \<open>Ghost\<close>, a bone the avatar does not have, with the costume of the first example
  and with the shirt only.
\<close>

definition ex_mesh_only_input :: input where
  "ex_mesh_only_input =
     ex_input\<lparr>costume_import := Some [ex_shirt\<lparr>modifiers := [], parent := None\<rparr>]\<rparr>"

definition ex_no_armature_input :: input where
  "ex_no_armature_input = ex_input\<lparr>avatar_import := Some [ex_avatar_body]\<rparr>"

definition ex_no_content_input :: input where
  "ex_no_content_input = ex_input\<lparr>costume_import := Some [new_object ''Light'' OTHER]\<rparr>"

definition ex_ghost_mapping :: mapping_data where
  "ex_ghost_mapping =
     \<lparr> boneMapping = Some
         [\<lparr> avatarBoneId = Some ''Hip'', costumeBoneId = Some ''Hip'' \<rparr>,
          \<lparr> avatarBoneId = Some ''Chest'', costumeBoneId = Some ''Chest'' \<rparr>,
          \<lparr> avatarBoneId = Some ''Ghost'', costumeBoneId = Some ''Sleeve'' \<rparr>] \<rparr>"

definition ex_ghost_input :: input where
  "ex_ghost_input = ex_input\<lparr>mapping_file := Some ex_ghost_mapping\<rparr>"


definition ex_ghost_shirt_final :: object where
  "ex_ghost_shirt_final = ex_shirt_final\<lparr>vertex_groups := [''Hip'', ''Chest'', ''Ghost'']\<rparr>"

definition ex_ghost_final :: scene_state where
  "ex_ghost_final = ex_final\<lparr>costume_meshes := [ex_ghost_shirt_final]\<rparr>"

definition ex_mesh_only_ghost_input :: input where
  "ex_mesh_only_ghost_input = ex_mesh_only_input\<lparr>mapping_file := Some ex_ghost_mapping\<rparr>"

text \<open>
  The many-to-one scene: the avatar has the bone \<open>Leg\<close>, the costume the bones
  \<open>LegUpper\<close> and \<open>LegLower\<close>, both mapped to \<open>Leg\<close>; the one vertex of the trousers has
  weight \<open>0.4\<close> on \<open>LegUpper\<close> and \<open>0.6\<close> on \<open>LegLower\<close>.
\<close>

definition ex_leg_avatar_armature :: object where
  "ex_leg_avatar_armature =
     (new_object ''Armature'' ARMATURE)\<lparr> bones := [new_bone ''Leg'' None (0, 0, 8)] \<rparr>"

definition ex_leg_costume_armature :: object where
  "ex_leg_costume_armature =
     (new_object ''Armature.001'' ARMATURE)
       \<lparr> bones := [new_bone ''LegUpper'' None (0, 0, 8),
                   new_bone ''LegLower'' (Some 0) (0, 0, -4)] \<rparr>"

definition ex_trousers :: object where
  "ex_trousers =
     (new_object ''Trousers'' MESH)
       \<lparr> modifiers := [\<lparr> mod_type = ARMATURE_MODIFIER, mod_object = Some ''Armature.001'' \<rparr>],
         vertex_groups := [''LegUpper'', ''LegLower''],
         vertices := [[(0, 4/10), (1, 6/10)]],
         parent := Some ''Armature.001'' \<rparr>"

definition ex_leg_mapping :: mapping_data where
  "ex_leg_mapping =
     \<lparr> boneMapping = Some
         [\<lparr> avatarBoneId = Some ''Leg'', costumeBoneId = Some ''LegUpper'' \<rparr>,
          \<lparr> avatarBoneId = Some ''Leg'', costumeBoneId = Some ''LegLower'' \<rparr>] \<rparr>"

definition ex_leg_input :: input where
  "ex_leg_input =
     \<lparr> avatar_import = Some [ex_leg_avatar_armature],
       costume_import = Some [ex_leg_costume_armature, ex_trousers],
       mapping_file = Some ex_leg_mapping,
       settings_file = Some ex_settings,
       export_ok = True,
       setters = blender_setters \<rparr>"

definition ex_trousers_final :: object where
  "ex_trousers_final =
     ex_trousers
       \<lparr> modifiers := [\<lparr> mod_type = ARMATURE_MODIFIER, mod_object = Some ''Armature'' \<rparr>],
         vertex_groups := [''Leg'', ''Leg.001''],
         parent := Some ''Armature'' \<rparr>"

definition ex_leg_loaded :: scene_state where
  "ex_leg_loaded =
     \<lparr> avatar_armature = ex_leg_avatar_armature, avatar_rest = [],
       costume_armature = Some ex_leg_costume_armature, costume_meshes = [ex_trousers],
       costume_rest = [] \<rparr>"

definition ex_leg_final :: scene_state where
  "ex_leg_final =
     \<lparr> avatar_armature = ex_leg_avatar_armature, avatar_rest = [],
       costume_armature = None, costume_meshes = [ex_trousers_final],
       costume_rest = [] \<rparr>"

section \<open>What renaming leaves alone\<close>

text \<open>
  Whatever the name setters store, an assignment is made only to a bone or a group whose
  name is a key of the mapping at that moment, and a bone that gets another name takes
  along only the group that had its old name, a key. So a group or a bone whose name is
  not a key is never touched, and nothing but names changes.
\<close>

lemma groups_frame_refl: "groups_frame bm gs gs"
  by (simp add: groups_frame_def)

lemma groups_frame_trans:
  "groups_frame bm gs gs' \<Longrightarrow> groups_frame bm gs' gs'' \<Longrightarrow> groups_frame bm gs gs''"
  by (simp add: groups_frame_def)

lemma rename_first_length: "length (rename_first old new gs) = length gs"
  by (induction gs) simp_all

lemma rename_first_nth:
  "p < length gs \<Longrightarrow> gs ! p \<noteq> old \<Longrightarrow> rename_first old new gs ! p = gs ! p"
  by (induction gs arbitrary: p) (auto simp: nth_Cons split: nat.splits)

lemma rename_first_frame:
  assumes "bm old \<noteq> None"
  shows "groups_frame bm gs (rename_first old new gs)"
proof -
  have "rename_first old new gs ! p = gs ! p" if "p < length gs" and "bm (gs ! p) = None" for p
  proof -
    have "gs ! p \<noteq> old" using assms that(2) by auto
    then show ?thesis using that(1) by (rule rename_first_nth[rotated])
  qed
  then show ?thesis
    by (simp add: groups_frame_def rename_first_length)
qed

lemma rename_group_at_frame: "groups_frame bm gs (rename_group_at ns bm gs i)"
proof (cases "bm (gs ! i)")
  case None
  then show ?thesis by (simp add: rename_group_at_def groups_frame_refl)
next
  case (Some a)
  have "gs[i := x] ! p = gs ! p" if "bm (gs ! p) = None" for p x
  proof -
    have "p \<noteq> i" using Some that by auto
    then show ?thesis by simp
  qed
  then show ?thesis
    using Some by (simp add: rename_group_at_def groups_frame_def)
qed

lemma foldl_rename_group_at_frame:
  "groups_frame bm gs cur \<Longrightarrow> groups_frame bm gs (foldl (rename_group_at ns bm) cur is)"
proof (induction "is" arbitrary: cur)
  case Nil
  then show ?case by simp
next
  case (Cons i "is")
  have "groups_frame bm gs (rename_group_at ns bm cur i)"
    using Cons.prems rename_group_at_frame by (rule groups_frame_trans)
  then show ?case
    using Cons.IH by simp
qed

lemma rename_groups_frame: "groups_frame bm gs (rename_groups ns bm gs)"
  unfolding rename_groups_def
  by (rule foldl_rename_group_at_frame) (rule groups_frame_refl)

lemma vertex_groups_update_trans:
  "z = y\<lparr>vertex_groups := gz\<rparr> \<Longrightarrow> y = x\<lparr>vertex_groups := g\<rparr> \<Longrightarrow> z = x\<lparr>vertex_groups := gz\<rparr>"
  by simp

lemma mesh_frame_refl: "mesh_frame bm m m"
  by (simp add: mesh_frame_def groups_frame_refl)

lemma mesh_frame_trans:
  assumes "mesh_frame bm m m'" and "mesh_frame bm m' m''"
  shows "mesh_frame bm m m''"
proof -
  have "m'' = m'\<lparr>vertex_groups := vertex_groups m''\<rparr>" and "m' = m\<lparr>vertex_groups := vertex_groups m'\<rparr>"
    using assms by (simp_all add: mesh_frame_def)
  then have "m'' = m\<lparr>vertex_groups := vertex_groups m''\<rparr>"
    by (rule vertex_groups_update_trans)
  moreover have "groups_frame bm (vertex_groups m) (vertex_groups m'')"
    using assms groups_frame_trans unfolding mesh_frame_def by blast
  ultimately show ?thesis
    by (simp add: mesh_frame_def)
qed

lemma mesh_frame_fields:
  assumes "mesh_frame bm m m'"
  shows "obj_name m' = obj_name m" and "obj_type m' = obj_type m"
    and "vertices m' = vertices m" and "location m' = location m"
    and "modifiers m' = modifiers m"
    and "groups_frame bm (vertex_groups m) (vertex_groups m')"
proof -
  have eq: "m' = m\<lparr>vertex_groups := vertex_groups m'\<rparr>"
    using assms by (simp add: mesh_frame_def)
  show "obj_name m' = obj_name m" by (subst eq) simp
  show "obj_type m' = obj_type m" by (subst eq) simp
  show "vertices m' = vertices m" by (subst eq) simp
  show "location m' = location m" by (subst eq) simp
  show "modifiers m' = modifiers m" by (subst eq) simp
  show "groups_frame bm (vertex_groups m) (vertex_groups m')"
    using assms by (simp add: mesh_frame_def)
qed

lemma follow_bone_rename_frame:
  assumes "bm old \<noteq> None"
  shows "mesh_frame bm m (follow_bone_rename arm_name old new m)"
  using rename_first_frame[where bm=bm and old=old, OF assms]
  by (simp add: follow_bone_rename_def mesh_frame_def groups_frame_refl)

lemma bones_frame_refl: "bones_frame bm bs bs"
  by (simp add: bones_frame_def)

lemma bones_frame_trans:
  "bones_frame bm bs bs' \<Longrightarrow> bones_frame bm bs' bs'' \<Longrightarrow> bones_frame bm bs bs''"
  by (simp add: bones_frame_def)

lemma map_update_same:
  assumes "f y = f (bs ! i)"
  shows "map f (bs[i := y]) = map f bs"
proof (cases "i < length bs")
  case True
  then show ?thesis
    using assms by (simp add: map_update list_update_same_conv)
next
  case False
  then have "bs[i := y] = bs" by (simp add: list_update_beyond)
  then show ?thesis by simp
qed

lemma set_name_bones_frame:
  assumes "bm (bone_name (bs ! i)) \<noteq> None"
  shows "bones_frame bm bs (bs[i := (bs ! i)\<lparr>bone_name := x\<rparr>])"
proof -
  have "bs[i := y] ! j = bs ! j" if "bm (bone_name (bs ! j)) = None" for j y
  proof -
    have "j \<noteq> i" using assms that by auto
    then show ?thesis by simp
  qed
  moreover have "map bind_local (bs[i := (bs ! i)\<lparr>bone_name := x\<rparr>]) = map bind_local bs"
    by (rule map_update_same) simp
  moreover have "map bone_parent (bs[i := (bs ! i)\<lparr>bone_name := x\<rparr>]) = map bone_parent bs"
    by (rule map_update_same) simp
  ultimately show ?thesis
    by (simp add: bones_frame_def)
qed

lemma bones_update_trans:
  "z = y\<lparr>bones := bz\<rparr> \<Longrightarrow> y = x\<lparr>bones := b\<rparr> \<Longrightarrow> z = x\<lparr>bones := bz\<rparr>"
  by simp

lemma state_frame_refl: "state_frame bm s s"
  by (simp add: state_frame_def bones_frame_refl list_all2_refl mesh_frame_refl)

lemma state_frame_trans:
  assumes "state_frame bm s s'" and "state_frame bm s' s''"
  shows "state_frame bm s s''"
proof -
  have "fst s'' = (fst s')\<lparr>bones := bones (fst s'')\<rparr>" and "fst s' = (fst s)\<lparr>bones := bones (fst s')\<rparr>"
    using assms by (simp_all add: state_frame_def)
  then have arm: "fst s'' = (fst s)\<lparr>bones := bones (fst s'')\<rparr>"
    by (rule bones_update_trans)
  have "list_all2 (mesh_frame bm) (snd s) (snd s')" and "list_all2 (mesh_frame bm) (snd s') (snd s'')"
    using assms by (simp_all add: state_frame_def)
  then have meshes: "list_all2 (mesh_frame bm) (snd s) (snd s'')"
    by (rule list_all2_trans[rotated]) (rule mesh_frame_trans)
  have "bones_frame bm (bones (fst s)) (bones (fst s'))"
    and "bones_frame bm (bones (fst s')) (bones (fst s''))"
    using assms by (simp_all add: state_frame_def)
  then have "bones_frame bm (bones (fst s)) (bones (fst s''))"
    by (rule bones_frame_trans)
  then show ?thesis
    using arm meshes by (simp add: state_frame_def)
qed

lemma rename_bone_at_frame: "state_frame bm s (rename_bone_at ns bm s i)"
proof (cases "bm (bone_name (bones (fst s) ! i))")
  case None
  then show ?thesis by (simp add: rename_bone_at_def state_frame_refl)
next
  case (Some a)
  then have key: "bm (bone_name (bones (fst s) ! i)) \<noteq> None" by simp
  have "list_all2 (mesh_frame bm) (snd s)
          (map (follow_bone_rename n (bone_name (bones (fst s) ! i)) x) (snd s))" for n x
    using follow_bone_rename_frame[where bm=bm and old="bone_name (bones (fst s) ! i)", OF key]
    by (simp add: list_all2_conv_all_nth)
  then show ?thesis
    using Some set_name_bones_frame[where bm=bm and bs="bones (fst s)" and i=i, OF key]
    by (simp add: rename_bone_at_def set_bone_name_def Let_def state_frame_def)
qed

lemma foldl_rename_bone_at_frame:
  "state_frame bm s cur \<Longrightarrow> state_frame bm s (foldl (rename_bone_at ns bm) cur is)"
proof (induction "is" arbitrary: cur)
  case Nil
  then show ?case by simp
next
  case (Cons i "is")
  have "state_frame bm s (rename_bone_at ns bm cur i)"
    using Cons.prems rename_bone_at_frame by (rule state_frame_trans)
  then show ?case
    using Cons.IH by simp
qed

lemma rename_bones_frame: "state_frame bm s (rename_bones ns bm s)"
  unfolding rename_bones_def
  by (rule foldl_rename_bone_at_frame) (rule state_frame_refl)

lemma apply_global_scale_fields:
  "obj_name (apply_global_scale c obj) = obj_name obj"
  "obj_type (apply_global_scale c obj) = obj_type obj"
  "bones (apply_global_scale c obj) = bones obj"
  "modifiers (apply_global_scale c obj) = modifiers obj"
  "vertex_groups (apply_global_scale c obj) = vertex_groups obj"
  "vertices (apply_global_scale c obj) = vertices obj"
  "parent (apply_global_scale c obj) = parent obj"
  "location (apply_global_scale c obj) = location obj"
  by (simp_all add: apply_global_scale_def)

lemma process_costume_armature_frame:
  "bones_frame (bone_mapping c) (bones (fst s)) (bones (fst (process_costume_armature ns c s)))"
  "list_all2 (mesh_frame (bone_mapping c)) (snd s) (snd (process_costume_armature ns c s))"
  using rename_bones_frame[of "bone_mapping c" s ns]
  by (simp_all add: process_costume_armature_def Let_def state_frame_def apply_global_scale_fields)

lemma after_armature_frame:
  "(fst (after_armature ns c st) = None) = (costume_armature st = None)"
  "list_all2 (mesh_frame (bone_mapping c)) (costume_meshes st) (snd (after_armature ns c st))"
  using process_costume_armature_frame(2)[of c "(the (costume_armature st), costume_meshes st)" ns]
  by (auto simp: after_armature_def Let_def list_all2_refl mesh_frame_refl split: option.splits)

section \<open>Basic facts about the stages\<close>

lemma process_mesh_fields:
  assumes "process_mesh ns c av arm m = Inr m'"
  shows "obj_name m' = obj_name m"
    and "obj_type m' = obj_type m"
    and "vertices m' = vertices m"
    and "location m' = location m"
    and "parent m' = Some (obj_name av)"
    and "groups_frame (bone_mapping c) (vertex_groups m) (vertex_groups m')"
    and "update_modifiers (arm \<noteq> None) (obj_name av) (modifiers m) = Inr (modifiers m')"
  using assms rename_groups_frame[of "bone_mapping c" "vertex_groups m" ns]
  by (auto simp: process_mesh_def Let_def apply_global_scale_fields groups_frame_refl
        split: sum.splits if_splits)

lemma process_meshes_all2:
  "process_meshes ns c av arm ms = Inr ms'
     \<Longrightarrow> list_all2 (\<lambda>m m'. process_mesh ns c av arm m = Inr m') ms ms'"
  by (induction ms arbitrary: ms') (auto split: sum.splits)

lemma find_avatar_armature_type:
  "find_avatar_armature objs seen = Some (av, r) \<Longrightarrow> obj_type av = ARMATURE"
  by (induction objs arbitrary: seen) (auto split: if_splits)

lemma find_avatar_armature_None:
  "(find_avatar_armature objs seen = None) = (list_all (\<lambda>obj. obj_type obj \<noteq> ARMATURE) objs)"
  by (induction objs arbitrary: seen) auto

lemma find_costume_meshes:
  "fst (snd (find_costume objs (arm, meshes, rest)))
     = meshes @ filter (\<lambda>obj. obj_type obj = MESH) objs"
  by (induction objs arbitrary: arm meshes rest) auto

lemma find_costume_armature:
  "(fst (find_costume objs (arm, meshes, rest)) = None)
     = (arm = None \<and> list_all (\<lambda>obj. obj_type obj \<noteq> ARMATURE) objs)"
  by (induction objs arbitrary: arm meshes rest) auto

lemma find_costume_no_content:
  assumes "list_all (\<lambda>obj. obj_type obj \<noteq> ARMATURE \<and> obj_type obj \<noteq> MESH) objs"
  shows "find_costume objs (None, [], rest) = (None, [], rest @ objs)"
  using assms by (induction objs arbitrary: rest) auto


lemma update_modifiers_no_armature: "update_modifiers False av ms = Inr ms"
  by (induction ms) simp_all

lemma load_Inr:
  assumes "load inp = Inr (st, c)"
  shows "obj_type (avatar_armature st) = ARMATURE"
    and "list_all (\<lambda>m. obj_type m = MESH) (costume_meshes st)"
proof -
  from assms obtain avs av avr sel md s where
    a: "find_avatar_armature avs [] = Some (av, avr)"
    and f: "find_costume (costume_objects_of avs sel) (None, [], [])
             = (costume_armature st, costume_meshes st, costume_rest st)"
    and s: "avatar_armature st = av"
    by (auto simp: load_def Let_def split: option.splits if_splits prod.splits)
  show "obj_type (avatar_armature st) = ARMATURE"
    using a s find_avatar_armature_type by blast
  have "costume_meshes st = [] @ filter (\<lambda>obj. obj_type obj = MESH) (costume_objects_of avs sel)"
    using find_costume_meshes[of "costume_objects_of avs sel" None "[]" "[]"] f by simp
  then show "list_all (\<lambda>m. obj_type m = MESH) (costume_meshes st)"
    by (simp add: list_all_iff)
qed

lemma run_Inr:
  "load inp = Inr (st, c) \<Longrightarrow> run inp = Inr st' \<Longrightarrow> process (setters inp) c st = Inr st'"
  by (auto simp: run_def split: sum.splits if_splits)

lemma process_Inr:
  assumes "process ns c st = Inr st'"
  shows "\<exists>ms. process_meshes ns c (avatar_armature st)
                 (fst (after_armature ns c st)) (snd (after_armature ns c st)) = Inr ms
          \<and> avatar_armature st' = show_and_select True (avatar_armature st)
          \<and> avatar_rest st' = map (show_and_select False) (avatar_rest st)
          \<and> costume_armature st' = None
          \<and> costume_meshes st' =
               map (show_and_select True) (map (\<lambda>m. m\<lparr>location := (0, 0, 0)\<rparr>) ms)
          \<and> costume_rest st' = map (show_and_select False) (costume_rest st)"
  using assms by (auto simp: process_def Let_def split: sum.splits)

lemma final_mesh:
  assumes "process ns c st = Inr st'"
  shows "length (costume_meshes st') = length (costume_meshes st)"
    and "k < length (costume_meshes st) \<Longrightarrow>
          obj_name (costume_meshes st' ! k) = obj_name (costume_meshes st ! k)
        \<and> obj_type (costume_meshes st' ! k) = obj_type (costume_meshes st ! k)
        \<and> vertices (costume_meshes st' ! k) = vertices (costume_meshes st ! k)
        \<and> location (costume_meshes st' ! k) = (0, 0, 0)
        \<and> selected (costume_meshes st' ! k)
        \<and> parent (costume_meshes st' ! k) = Some (obj_name (avatar_armature st))
        \<and> groups_frame (bone_mapping c) (vertex_groups (costume_meshes st ! k))
             (vertex_groups (costume_meshes st' ! k))
        \<and> update_modifiers (costume_armature st \<noteq> None) (obj_name (avatar_armature st))
             (modifiers (costume_meshes st ! k)) = Inr (modifiers (costume_meshes st' ! k))"
proof -
  let ?s = "after_armature ns c st"
  from process_Inr[OF assms] obtain ms where
    pm: "process_meshes ns c (avatar_armature st) (fst ?s) (snd ?s) = Inr ms"
    and cm: "costume_meshes st' =
               map (show_and_select True) (map (\<lambda>m. m\<lparr>location := (0, 0, 0)\<rparr>) ms)"
    by blast
  note all2 = process_meshes_all2[OF pm]
  note fr = after_armature_frame(2)[of c st ns]
  have len1: "length (snd ?s) = length (costume_meshes st)"
    using fr by (simp add: list_all2_lengthD)
  have len: "length ms = length (costume_meshes st)"
    using all2 len1 by (simp add: list_all2_lengthD)
  show "length (costume_meshes st') = length (costume_meshes st)"
    using cm len by simp
  assume k: "k < length (costume_meshes st)"
  have mf: "mesh_frame (bone_mapping c) (costume_meshes st ! k) (snd ?s ! k)"
    using fr k by (simp add: list_all2_conv_all_nth)
  have pk: "process_mesh ns c (avatar_armature st) (fst ?s) (snd ?s ! k) = Inr (ms ! k)"
    using all2 k len1 by (simp add: list_all2_conv_all_nth)
  have fk: "costume_meshes st' ! k = show_and_select True ((ms ! k)\<lparr>location := (0, 0, 0)\<rparr>)"
    using cm k len by simp
  have arm: "(fst ?s \<noteq> None) = (costume_armature st \<noteq> None)"
    using after_armature_frame(1)[of ns c st] by simp
  have gf: "groups_frame (bone_mapping c) (vertex_groups (costume_meshes st ! k))
              (vertex_groups (ms ! k))"
    using mesh_frame_fields(6)[OF mf] process_mesh_fields(6)[OF pk] by (rule groups_frame_trans)
  show "obj_name (costume_meshes st' ! k) = obj_name (costume_meshes st ! k)
        \<and> obj_type (costume_meshes st' ! k) = obj_type (costume_meshes st ! k)
        \<and> vertices (costume_meshes st' ! k) = vertices (costume_meshes st ! k)
        \<and> location (costume_meshes st' ! k) = (0, 0, 0)
        \<and> selected (costume_meshes st' ! k)
        \<and> parent (costume_meshes st' ! k) = Some (obj_name (avatar_armature st))
        \<and> groups_frame (bone_mapping c) (vertex_groups (costume_meshes st ! k))
             (vertex_groups (costume_meshes st' ! k))
        \<and> update_modifiers (costume_armature st \<noteq> None) (obj_name (avatar_armature st))
             (modifiers (costume_meshes st ! k)) = Inr (modifiers (costume_meshes st' ! k))"
    using process_mesh_fields(1-5,7)[OF pk] mesh_frame_fields(1-5)[OF mf] fk gf arm
    by (simp add: show_and_select_def)
qed

lemma final_groups:
  assumes "process ns c st = Inr st'" and "k < length (costume_meshes st)"
  shows "length (vertex_groups (costume_meshes st' ! k))
           = length (vertex_groups (costume_meshes st ! k))"
    and "p < length (vertex_groups (costume_meshes st ! k))
          \<Longrightarrow> bone_mapping c (vertex_groups (costume_meshes st ! k) ! p) = None
          \<Longrightarrow> vertex_groups (costume_meshes st' ! k) ! p = vertex_groups (costume_meshes st ! k) ! p"
  using final_mesh(2)[OF assms] by (simp_all add: groups_frame_def)

lemma process_mesh_cong:
  assumes "bone_mapping c = bone_mapping c'" and "apply_global_scale c = apply_global_scale c'"
  shows "process_mesh ns c av arm m = process_mesh ns c' av arm m"
  unfolding process_mesh_def assms ..

lemma process_meshes_cong:
  assumes "bone_mapping c = bone_mapping c'" and "apply_global_scale c = apply_global_scale c'"
  shows "process_meshes ns c av arm ms = process_meshes ns c' av arm ms"
  by (induction ms) (simp_all add: process_mesh_cong[OF assms] split: sum.splits)

lemma process_costume_armature_cong:
  assumes "bone_mapping c = bone_mapping c'" and "apply_global_scale c = apply_global_scale c'"
  shows "process_costume_armature ns c = process_costume_armature ns c'"
  unfolding process_costume_armature_def assms ..

lemma process_cong:
  assumes "bone_mapping c = bone_mapping c'" and "apply_global_scale c = apply_global_scale c'"
  shows "process ns c st = process ns c' st"
  unfolding process_def after_armature_def
    process_costume_armature_cong[OF assms] process_meshes_cong[OF assms] ..

lemma run_settings_cong:
  assumes "\<And>ns md st. process ns (extract_config md s) st = process ns (extract_config md s') st"
  shows "run (inp\<lparr>settings_file := Some s\<rparr>) = run (inp\<lparr>settings_file := Some s'\<rparr>)"
  using assms
  by (simp add: run_def load_def Let_def split: option.splits prod.splits sum.splits)


lemma process_bone_mapping_lookup:
  "foldl add_mapping Map.empty entries n =
     (case find (\<lambda>e. costumeBoneId e = Some n \<and> avatarBoneId e \<noteq> None) (rev entries) of
        None \<Rightarrow> None
      | Some e \<Rightarrow> avatarBoneId e)"
  by (induction entries rule: rev_induct)
     (auto simp: add_mapping_def split: option.splits)

lemma process_mesh_isl:
  "isl (process_mesh ns c av arm m)
     = isl (update_modifiers (arm \<noteq> None) (obj_name av) (modifiers m))"
  by (simp add: process_mesh_def Let_def split: sum.splits)

lemma process_meshes_isl:
  "isl (process_meshes ns c av arm ms)
     = list_ex (\<lambda>m. isl (update_modifiers (arm \<noteq> None) (obj_name av) (modifiers m))) ms"
proof (induction ms)
  case Nil
  show ?case by simp
next
  case (Cons m ms)
  then show ?case
    using process_mesh_isl[of ns c av arm m] by (auto split: sum.splits)
qed

lemma list_ex_modifiers:
  assumes "list_all2 (mesh_frame bm) ms ms'"
  shows "list_ex (\<lambda>m. P (modifiers m)) ms' = list_ex (\<lambda>m. P (modifiers m)) ms"
  using assms
proof (induction rule: list_all2_induct)
  case Nil
  show ?case by simp
next
  case (Cons m ms m' ms')
  then show ?case
    using mesh_frame_fields(5)[of bm m m'] by simp
qed

lemma process_isl:
  "isl (process ns c st)
     = list_ex (\<lambda>m. isl (update_modifiers (costume_armature st \<noteq> None)
                            (obj_name (avatar_armature st)) (modifiers m))) (costume_meshes st)"
proof -
  let ?s = "after_armature ns c st"
  have "isl (process ns c st) = isl (process_meshes ns c (avatar_armature st) (fst ?s) (snd ?s))"
    by (auto simp: process_def Let_def split: sum.splits)
  also have "\<dots> = list_ex (\<lambda>m. isl (update_modifiers (costume_armature st \<noteq> None)
                            (obj_name (avatar_armature st)) (modifiers m))) (snd ?s)"
    using after_armature_frame(1)[of ns c st] by (simp add: process_meshes_isl)
  also have "\<dots> = list_ex (\<lambda>m. isl (update_modifiers (costume_armature st \<noteq> None)
                            (obj_name (avatar_armature st)) (modifiers m))) (costume_meshes st)"
    by (rule list_ex_modifiers[OF after_armature_frame(2)])
  finally show ?thesis .
qed

lemma run_mapping_isl:
  "isl (run (inp\<lparr>mapping_file := Some md\<rparr>)) = isl (run (inp\<lparr>mapping_file := Some md'\<rparr>))"
proof -
  have "isl (case process ns c st of Inl e \<Rightarrow> Inl e
             | Inr st' \<Rightarrow> if b then Inr st' else Inl ExportError)
      = isl (case process ns c' st of Inl e \<Rightarrow> Inl e
             | Inr st' \<Rightarrow> if b then Inr st' else Inl ExportError)" for ns c c' st b
    using process_isl[of ns c st] process_isl[of ns c' st] by (auto split: sum.splits)
  then show ?thesis
    by (simp add: run_def load_def Let_def split: option.splits prod.splits cong: sum.case_cong)
qed

lemma process_no_armature:
  assumes "costume_armature st = None"
  shows "\<not> isl (process ns c st)"
  using assms by (simp add: process_isl update_modifiers_no_armature list_ex_iff)

section \<open>The example runs\<close>

lemmas ex_defs = ex_input_def ex_loaded_def ex_config_def ex_final_def ex_shirt_final_def
  ex_shirt_def ex_costume_armature_def ex_avatar_body_def ex_avatar_armature_def
  ex_mapping_def ex_settings_def new_object_def new_bone_def

lemma ex_load: "load ex_input = Inr (ex_loaded, ex_config)"
  by (simp add: load_def ex_defs costume_objects_of_def)

lemma ex_process: "process blender_setters ex_config ex_loaded = Inr ex_final"
  by code_simp

lemma ex_run: "run ex_input = Inr ex_final"
  by (simp add: run_def ex_load) (simp add: ex_input_def ex_process)


lemma ex_ghost_run: "run ex_ghost_input = Inr ex_ghost_final"
  by code_simp

lemma ex_leg_load: "load ex_leg_input = Inr (ex_leg_loaded, extract_config ex_leg_mapping ex_settings)"
  by (simp add: load_def ex_leg_input_def ex_leg_loaded_def ex_leg_avatar_armature_def
        ex_leg_costume_armature_def ex_trousers_def new_object_def costume_objects_of_def)

lemma ex_leg_run: "run ex_leg_input = Inr ex_leg_final"
  by code_simp

section \<open>Scaling\<close>

text \<open>
  C6. A run with \<open>globalScale = 1.0\<close> and \<open>adjustScale = true\<close> ends in the same scene, or
  in the same error, as the run with \<open>adjustScale = false\<close> on the same inputs (whatever
  \<open>globalScale\<close> that run has): both tests of lines 145 and 175 are false.
\<close>

theorem unit_global_scale_is_noop:
  "run (inp\<lparr>settings_file := Some (s\<lparr>globalScale := Some 1, adjustScale := Some True\<rparr>)\<rparr>)
     = run (inp\<lparr>settings_file := Some (s\<lparr>adjustScale := Some False\<rparr>)\<rparr>)"
proof (rule run_settings_cong)
  fix ns md st
  let ?c = "extract_config md (s\<lparr>globalScale := Some 1, adjustScale := Some True\<rparr>)"
  let ?c' = "extract_config md (s\<lparr>adjustScale := Some False\<rparr>)"
  have "bone_mapping ?c = bone_mapping ?c'"
    by (simp add: extract_config_def)
  moreover have "apply_global_scale ?c = apply_global_scale ?c'"
    by (rule ext) (simp add: apply_global_scale_def extract_config_def get_or_def)
  ultimately show "process ns ?c st = process ns ?c' st"
    by (rule process_cong)
qed

section \<open>Placement of the costume meshes\<close>

text \<open>
  C10. Whatever the settings, every costume mesh of a run that reaches the export has its
  location at the origin \<open>(0, 0, 0)\<close> in the scene that is exported, and is among the
  exported objects; an authored location of the mesh object is lost. The loaded state
  \<open>st\<close> holds the costume meshes as imported, \<open>st'\<close> is the scene at the export.
\<close>

theorem mesh_location_reset:
  assumes "load inp = Inr (st, c)" and "run inp = Inr st'"
  shows "map obj_name (costume_meshes st') = map obj_name (costume_meshes st)
       \<and> (\<forall>m \<in> set (costume_meshes st'). location m = (0, 0, 0) \<and> m \<in> set (exported st'))"
proof -
  note p = run_Inr[OF assms]
  note len = final_mesh(1)[OF p]
  note fm = final_mesh(2)[OF p]
  have names: "map obj_name (costume_meshes st') = map obj_name (costume_meshes st)"
    using len fm by (simp add: list_eq_iff_nth_eq)
  have "location m = (0, 0, 0) \<and> m \<in> set (exported st')" if "m \<in> set (costume_meshes st')" for m
  proof -
    from that obtain k where k: "k < length (costume_meshes st)" and m: "m = costume_meshes st' ! k"
      using len by (metis in_set_conv_nth)
    have "obj_type (costume_meshes st ! k) = MESH"
      using load_Inr(2)[OF assms(1)] k by (simp add: list_all_length)
    then have "location m = (0, 0, 0)" and "selected m" and "obj_type m = MESH"
      using fm[OF k] m by simp_all
    then show ?thesis
      using that by (simp add: exported_def data_objects_def)
  qed
  then show ?thesis using names by blast
qed

text \<open>The example run: the shirt is imported at \<open>(0, 3, 0)\<close> and exported at the origin.\<close>

theorem mesh_location_reset_witness:
  "load ex_input = Inr (ex_loaded, ex_config) \<and> run ex_input = Inr ex_final
   \<and> map location (costume_meshes ex_loaded) = [(0, 3, 0)]
   \<and> map location (costume_meshes ex_final) = [(0, 0, 0)]
   \<and> ex_shirt_final \<in> set (exported ex_final)"
  using mesh_location_reset[OF ex_load ex_run]
  by (simp add: ex_load ex_run) (simp add: ex_loaded_def ex_final_def ex_shirt_def new_object_def)

section \<open>Weights of the vertices\<close>

text \<open>
  C1, as the script has it. Whatever \<open>redistributeWeights\<close> is, a run that reaches the
  export leaves every vertex of every costume mesh with the group indices and weights
  it was imported with, so the sum of the weights of a vertex after the run is the sum
  before it (exactly). Nothing is redistributed: an influence on a group whose name is
  not a key of the mapping stays on that group, under the same name, with its weight.
\<close>

theorem weights_untouched:
  assumes "load inp = Inr (st, c)" and "run inp = Inr st'"
  shows "\<forall>k<length (costume_meshes st).
           vertices (costume_meshes st' ! k) = vertices (costume_meshes st ! k)
         \<and> map weight_sum (vertices (costume_meshes st' ! k))
             = map weight_sum (vertices (costume_meshes st ! k))
         \<and> (\<forall>v \<in> set (vertices (costume_meshes st ! k)). \<forall>gw \<in> set v. \<forall>n.
              group_name (costume_meshes st ! k) (fst gw) = Some n
                \<longrightarrow> bone_mapping c n = None
                \<longrightarrow> group_name (costume_meshes st' ! k) (fst gw) = Some n)"
proof (intro allI impI)
  fix k assume k: "k < length (costume_meshes st)"
  note p = run_Inr[OF assms]
  note fm = final_mesh(2)[OF p k]
  note fg = final_groups[OF p k]
  have v: "vertices (costume_meshes st' ! k) = vertices (costume_meshes st ! k)"
    using fm by simp
  have g: "group_name (costume_meshes st' ! k) g = Some n"
    if "group_name (costume_meshes st ! k) g = Some n" and "bone_mapping c n = None" for g n
    using that fg by (auto simp: group_name_def split: if_splits)
  show "vertices (costume_meshes st' ! k) = vertices (costume_meshes st ! k)
         \<and> map weight_sum (vertices (costume_meshes st' ! k))
             = map weight_sum (vertices (costume_meshes st ! k))
         \<and> (\<forall>v \<in> set (vertices (costume_meshes st ! k)). \<forall>gw \<in> set v. \<forall>n.
              group_name (costume_meshes st ! k) (fst gw) = Some n
                \<longrightarrow> bone_mapping c n = None
                \<longrightarrow> group_name (costume_meshes st' ! k) (fst gw) = Some n)"
    using v g by simp
qed

text \<open>The example run: both vertices of the shirt keep the sum \<open>1\<close>, and the group
  \<open>Sleeve\<close> keeps its name.\<close>

theorem weights_untouched_witness:
  "load ex_input = Inr (ex_loaded, ex_config) \<and> run ex_input = Inr ex_final
   \<and> length (costume_meshes ex_loaded) = 1
   \<and> map weight_sum (vertices (costume_meshes ex_final ! 0)) = [1, 1]
   \<and> map weight_sum (vertices (costume_meshes ex_loaded ! 0)) = [1, 1]
   \<and> group_name (costume_meshes ex_final ! 0) 2 = Some ''Sleeve''"
  using weights_untouched[OF ex_load ex_run]
  by (simp add: ex_load ex_run)
     (simp add: ex_defs weight_sum_def group_name_def)

text \<open>
  The claim as the specification states it fails on the example: with
  \<open>redistributeWeights = true\<close>, the second vertex of the shirt has half of its weight
  on the mapped \<open>Chest\<close> and half on the unmapped \<open>Sleeve\<close>. Redistribution would give
  \<open>Chest\<close> the weight \<open>1\<close>; the script leaves \<open>1/2\<close> on \<open>Sleeve\<close>.
\<close>

theorem no_redistribution_counterexample:
  "run ex_input = Inr ex_final
   \<and> redistribute_weights ex_config
   \<and> bone_mapping ex_config ''Chest'' = Some ''Chest''
   \<and> bone_mapping ex_config ''Sleeve'' = None
   \<and> influences ex_shirt (vertices ex_shirt ! 1) = [(Some ''Chest'', 1/2), (Some ''Sleeve'', 1/2)]
   \<and> costume_meshes ex_final = [ex_shirt_final]
   \<and> influences ex_shirt_final (vertices ex_shirt_final ! 1)
       = [(Some ''Chest'', 1/2), (Some ''Sleeve'', 1/2)]
   \<and> influences ex_shirt_final (vertices ex_shirt_final ! 1) \<noteq> [(Some ''Chest'', 1)]"
  by (simp add: ex_run)
     (simp add: ex_defs extract_config_def get_or_def process_bone_mapping_def add_mapping_def
        influences_def group_name_def)

text \<open>
  C2, as the script has it. A run that reaches the export keeps the list of influences
  of every vertex entry by entry: the same group indices and the same weights, on a
  mesh that has as many vertex groups as before. The script only assigns names; the
  weights of two costume bones that are mapped to the same avatar bone are not summed,
  they stay two influences.
\<close>

theorem influences_not_merged:
  assumes "load inp = Inr (st, c)" and "run inp = Inr st'"
  shows "\<forall>k<length (costume_meshes st).
           vertices (costume_meshes st' ! k) = vertices (costume_meshes st ! k)
         \<and> length (vertex_groups (costume_meshes st' ! k))
             = length (vertex_groups (costume_meshes st ! k))
         \<and> (\<forall>v \<in> set (vertices (costume_meshes st ! k)).
              length (influences (costume_meshes st' ! k) v) = length v
            \<and> map snd (influences (costume_meshes st' ! k) v)
                = map snd (influences (costume_meshes st ! k) v))"
proof (intro allI impI)
  fix k assume k: "k < length (costume_meshes st)"
  note p = run_Inr[OF assms]
  show "vertices (costume_meshes st' ! k) = vertices (costume_meshes st ! k)
         \<and> length (vertex_groups (costume_meshes st' ! k))
             = length (vertex_groups (costume_meshes st ! k))
         \<and> (\<forall>v \<in> set (vertices (costume_meshes st ! k)).
              length (influences (costume_meshes st' ! k) v) = length v
            \<and> map snd (influences (costume_meshes st' ! k) v)
                = map snd (influences (costume_meshes st ! k) v))"
    using final_mesh(2)[OF p k] final_groups(1)[OF p k]
    by (simp add: influences_def comp_def)
qed

text \<open>The many-to-one scene: the vertex \<open>LegUpper: 0.4, LegLower: 0.6\<close> keeps its two
  weights.\<close>

theorem influences_not_merged_witness:
  "load ex_leg_input = Inr (ex_leg_loaded, extract_config ex_leg_mapping ex_settings)
   \<and> run ex_leg_input = Inr ex_leg_final
   \<and> costume_meshes ex_leg_loaded = [ex_trousers]
   \<and> costume_meshes ex_leg_final = [ex_trousers_final]
   \<and> vertices ex_trousers = [[(0, 4/10), (1, 6/10)]]
   \<and> map snd (influences ex_trousers_final [(0, 4/10), (1, 6/10)]) = [4/10, 6/10]"
  using influences_not_merged[OF ex_leg_load ex_leg_run]
  by (simp add: ex_leg_load ex_leg_run)
     (simp add: influences_def ex_leg_loaded_def ex_leg_final_def ex_trousers_def new_object_def)

text \<open>
  The claim as the specification states it fails there: the result is not the single
  influence \<open>Leg: 1.0\<close>. The bone \<open>LegUpper\<close> becomes \<open>Leg\<close>, the bone \<open>LegLower\<close>, for
  which \<open>Leg\<close> is taken, becomes \<open>Leg.001\<close>, and the groups of the trousers follow
  their bones: the vertex ends with \<open>Leg: 0.4\<close> and \<open>Leg.001: 0.6\<close>.
\<close>

theorem many_to_one_not_merged_counterexample:
  "run ex_leg_input = Inr ex_leg_final
   \<and> costume_meshes ex_leg_final = [ex_trousers_final]
   \<and> map (influences ex_trousers) (vertices ex_trousers)
       = [[(Some ''LegUpper'', 4/10), (Some ''LegLower'', 6/10)]]
   \<and> map (influences ex_trousers_final) (vertices ex_trousers_final)
       = [[(Some ''Leg'', 4/10), (Some ''Leg.001'', 6/10)]]
   \<and> map (influences ex_trousers_final) (vertices ex_trousers_final) \<noteq> [[(Some ''Leg'', 1)]]"
  by (simp add: ex_leg_run)
     (simp add: influences_def group_name_def ex_leg_final_def ex_trousers_final_def
        ex_trousers_def new_object_def)

text \<open>
  C3, as the script has it. Whatever \<open>redistributeWeights\<close> is, a run that reaches the
  export keeps the vertices of every costume mesh, position by position, and a vertex
  whose influences are all on groups that are not keys of the mapping has after the run
  the influences it had before: same names, same weights. No weight moves to an ancestor
  bone or to the root bone of the avatar.
\<close>

theorem orphaned_weight_stays:
  assumes "load inp = Inr (st, c)" and "run inp = Inr st'"
  shows "\<forall>k<length (costume_meshes st).
           length (vertices (costume_meshes st' ! k)) = length (vertices (costume_meshes st ! k))
         \<and> (\<forall>i<length (vertices (costume_meshes st ! k)).
              (\<forall>gw \<in> set (vertices (costume_meshes st ! k) ! i). \<forall>n.
                 group_name (costume_meshes st ! k) (fst gw) = Some n \<longrightarrow> bone_mapping c n = None)
              \<longrightarrow> influences (costume_meshes st' ! k) (vertices (costume_meshes st' ! k) ! i)
                    = influences (costume_meshes st ! k) (vertices (costume_meshes st ! k) ! i))"
proof (intro allI impI conjI)
  fix k assume k: "k < length (costume_meshes st)"
  note p = run_Inr[OF assms]
  have v: "vertices (costume_meshes st' ! k) = vertices (costume_meshes st ! k)"
    using final_mesh(2)[OF p k] by simp
  show "length (vertices (costume_meshes st' ! k)) = length (vertices (costume_meshes st ! k))"
    using v by simp
  fix i
  assume i: "i < length (vertices (costume_meshes st ! k))"
    and un: "\<forall>gw \<in> set (vertices (costume_meshes st ! k) ! i). \<forall>n.
               group_name (costume_meshes st ! k) (fst gw) = Some n \<longrightarrow> bone_mapping c n = None"
  have "group_name (costume_meshes st' ! k) (fst gw) = group_name (costume_meshes st ! k) (fst gw)"
    if "gw \<in> set (vertices (costume_meshes st ! k) ! i)" for gw
  proof (cases "fst gw < length (vertex_groups (costume_meshes st ! k))")
    case True
    then have "bone_mapping c (vertex_groups (costume_meshes st ! k) ! fst gw) = None"
      using un that by (simp add: group_name_def)
    then show ?thesis
      using True final_groups[OF p k] by (simp add: group_name_def)
  next
    case False
    then show ?thesis
      using final_groups(1)[OF p k] by (simp add: group_name_def)
  qed
  then show "influences (costume_meshes st' ! k) (vertices (costume_meshes st' ! k) ! i)
               = influences (costume_meshes st ! k) (vertices (costume_meshes st ! k) ! i)"
    unfolding v by (simp add: influences_def)
qed

text \<open>The example run: the first vertex of the shirt is held by \<open>Sleeve\<close> alone.\<close>

theorem orphaned_weight_stays_witness:
  "load ex_input = Inr (ex_loaded, ex_config) \<and> run ex_input = Inr ex_final
   \<and> costume_meshes ex_loaded = [ex_shirt] \<and> costume_meshes ex_final = [ex_shirt_final]
   \<and> vertices ex_shirt ! 0 = [(2, 1)]
   \<and> group_name ex_shirt 2 = Some ''Sleeve''
   \<and> bone_mapping ex_config ''Sleeve'' = None
   \<and> influences ex_shirt_final (vertices ex_shirt_final ! 0) = [(Some ''Sleeve'', 1)]"
proof -
  have m: "costume_meshes ex_loaded = [ex_shirt]" "costume_meshes ex_final = [ex_shirt_final]"
    by (simp_all add: ex_loaded_def ex_final_def)
  have v: "vertices ex_shirt = [[(2, 1)], [(1, 1/2), (2, 1/2)]]"
    by (simp add: ex_shirt_def new_object_def)
  have g: "group_name ex_shirt 2 = Some ''Sleeve''"
    by (simp add: group_name_def ex_shirt_def new_object_def)
  have b: "bone_mapping ex_config ''Sleeve'' = None"
    by (simp add: ex_config_def ex_mapping_def extract_config_def process_bone_mapping_def
          add_mapping_def)
  have i: "influences ex_shirt [(2, 1)] = [(Some ''Sleeve'', 1)]"
    using g by (simp add: influences_def)
  have "influences ex_shirt_final (vertices ex_shirt_final ! 0) = influences ex_shirt (vertices ex_shirt ! 0)"
    using orphaned_weight_stays[OF ex_load ex_run] m v g b by simp
  then show ?thesis
    using m v g b i by (simp add: ex_load ex_run)
qed

text \<open>
  The claim as the specification states it fails there: with the parent chain
  \<open>Sleeve \<rightarrow> Chest \<rightarrow> Hip\<close> and \<open>Chest\<close> mapped, the weight of the vertex would go to
  \<open>Chest\<close>; the script leaves it on \<open>Sleeve\<close>.
\<close>

theorem no_ancestor_fallback_counterexample:
  "run ex_input = Inr ex_final
   \<and> redistribute_weights ex_config
   \<and> map bone_name (bones ex_costume_armature) = [''Hip'', ''Chest'', ''Sleeve'']
   \<and> map bone_parent (bones ex_costume_armature) = [None, Some 0, Some 1]
   \<and> bone_mapping ex_config ''Sleeve'' = None
   \<and> bone_mapping ex_config ''Chest'' = Some ''Chest''
   \<and> influences ex_shirt (vertices ex_shirt ! 0) = [(Some ''Sleeve'', 1)]
   \<and> costume_meshes ex_final = [ex_shirt_final]
   \<and> influences ex_shirt_final (vertices ex_shirt_final ! 0) = [(Some ''Sleeve'', 1)]
   \<and> influences ex_shirt_final (vertices ex_shirt_final ! 0) \<noteq> [(Some ''Chest'', 1)]"
  by (simp add: ex_run)
     (simp add: ex_defs extract_config_def get_or_def process_bone_mapping_def add_mapping_def
        influences_def group_name_def)

section \<open>Bind poses\<close>

text \<open>
  C4, as the script has it. Whatever \<open>adjustBindPoses\<close> is, the processing of the costume
  armature (lines 134-147) leaves the local bind transform and the parent of every
  costume bone as authored, mapped or not. The setting changes neither the armature nor
  the result of the run.
\<close>

theorem bind_poses_kept:
  "map bind_local (bones (fst (process_costume_armature ns c (arm, meshes))))
     = map bind_local (bones arm)
   \<and> map bone_parent (bones (fst (process_costume_armature ns c (arm, meshes))))
       = map bone_parent (bones arm)
   \<and> process_costume_armature ns (c\<lparr>adjust_bind_poses := b\<rparr>) (arm, meshes)
       = process_costume_armature ns c (arm, meshes)
   \<and> run (inp\<lparr>settings_file := Some (s\<lparr>adjustBindPoses := d\<rparr>)\<rparr>)
       = run (inp\<lparr>settings_file := Some s\<rparr>)"
proof -
  have "run (inp\<lparr>settings_file := Some (s\<lparr>adjustBindPoses := d\<rparr>)\<rparr>)
       = run (inp\<lparr>settings_file := Some s\<rparr>)"
  proof (rule run_settings_cong)
    fix ns md st
    show "process ns (extract_config md (s\<lparr>adjustBindPoses := d\<rparr>)) st
          = process ns (extract_config md s) st"
      by (rule process_cong) (simp_all add: extract_config_def apply_global_scale_def fun_eq_iff)
  qed
  moreover have "process_costume_armature ns (c\<lparr>adjust_bind_poses := b\<rparr>) (arm, meshes)
                   = process_costume_armature ns c (arm, meshes)"
    by (simp add: process_costume_armature_def apply_global_scale_def Let_def)
  ultimately show ?thesis
    using process_costume_armature_frame(1)[of c "(arm, meshes)" ns]
    by (simp add: bones_frame_def)
qed

text \<open>
  The claim as the specification states it fails on the example: with
  \<open>adjustBindPoses = true\<close>, the costume bone \<open>Hip\<close> is mapped to the avatar bone \<open>Hip\<close>,
  whose bind translation is \<open>(0, 0, 10)\<close>; after the processing the costume bone still
  has its own \<open>(0, 0, 11)\<close>.
\<close>

theorem bind_pose_not_replaced_counterexample:
  "load ex_input = Inr (ex_loaded, ex_config)
   \<and> costume_armature ex_loaded = Some ex_costume_armature
   \<and> costume_meshes ex_loaded = [ex_shirt]
   \<and> adjust_bind_poses ex_config
   \<and> bone_name (bones ex_costume_armature ! 0) = ''Hip''
   \<and> bone_mapping ex_config ''Hip'' = Some ''Hip''
   \<and> bone_name (bones ex_avatar_armature ! 0) = ''Hip''
   \<and> translation (bind_local (bones ex_avatar_armature ! 0)) = (0, 0, 10)
   \<and> translation (bind_local (bones ex_costume_armature ! 0)) = (0, 0, 11)
   \<and> translation (bind_local (bones (fst (process_costume_armature blender_setters ex_config
         (ex_costume_armature, [ex_shirt]))) ! 0)) = (0, 0, 11)"
proof -
  have "translation (bind_local (bones (fst (process_costume_armature blender_setters ex_config
         (ex_costume_armature, [ex_shirt]))) ! 0)) = (0, 0, 11)"
    by code_simp
  then show ?thesis
    by (simp add: ex_load)
       (simp add: ex_defs extract_config_def get_or_def process_bone_mapping_def add_mapping_def)
qed

section \<open>The bone mapping and diagnostics\<close>

text \<open>
  C5, as the script has it. The bone mapping is built from the entries alone: the value
  for a costume bone name is the \<open>avatarBoneId\<close> of the last entry that has this
  \<open>costumeBoneId\<close> and an \<open>avatarBoneId\<close>, whether or not the avatar has such a bone; only
  an entry that lacks one of the two keys is left out. Whether a run reaches the export
  does not depend on the mapping file's contents, so no unmapped bone stops a run. The
  script builds no diagnostics: \<open>detectStructuralDifferences\<close> changes nothing.
\<close>

theorem mapping_entries_applied:
  "process_bone_mapping \<lparr> boneMapping = Some entries \<rparr> n =
     (case find (\<lambda>e. costumeBoneId e = Some n \<and> avatarBoneId e \<noteq> None) (rev entries) of
        None \<Rightarrow> None
      | Some e \<Rightarrow> avatarBoneId e)
   \<and> isl (run (inp\<lparr>mapping_file := Some md\<rparr>)) = isl (run (inp\<lparr>mapping_file := Some md'\<rparr>))
   \<and> run (inp\<lparr>settings_file := Some (s\<lparr>detectStructuralDifferences := d\<rparr>)\<rparr>)
       = run (inp\<lparr>settings_file := Some s\<rparr>)"
proof -
  have "run (inp\<lparr>settings_file := Some (s\<lparr>detectStructuralDifferences := d\<rparr>)\<rparr>)
       = run (inp\<lparr>settings_file := Some s\<rparr>)"
  proof (rule run_settings_cong)
    fix ns md st
    show "process ns (extract_config md (s\<lparr>detectStructuralDifferences := d\<rparr>)) st
          = process ns (extract_config md s) st"
      by (rule process_cong) (simp_all add: extract_config_def apply_global_scale_def fun_eq_iff)
  qed
  then show ?thesis
    using run_mapping_isl[where inp=inp and md=md and md'=md'] process_bone_mapping_lookup[of entries n]
    by (simp add: process_bone_mapping_def)
qed

text \<open>
  The claim as the specification states it fails on the example with the entry
  \<open>Sleeve \<rightarrow> Ghost\<close>: the avatar has no bone \<open>Ghost\<close>, and the entry is applied, the
  exported shirt has the vertex group \<open>Ghost\<close>.
\<close>

theorem dangling_mapping_applied_counterexample:
  "map bone_name (bones ex_avatar_armature) = [''Hip'', ''Chest'']
   \<and> vertex_groups ex_shirt = [''Hip'', ''Chest'', ''Sleeve'']
   \<and> \<not> isl (run ex_ghost_input)
   \<and> map bone_name (bones (avatar_armature (projr (run ex_ghost_input)))) = [''Hip'', ''Chest'']
   \<and> map vertex_groups (costume_meshes (projr (run ex_ghost_input)))
       = [[''Hip'', ''Chest'', ''Ghost'']]"
  by (simp add: ex_ghost_run)
     (simp add: ex_ghost_final_def ex_ghost_shirt_final_def ex_final_def ex_shirt_def
        ex_avatar_armature_def new_object_def new_bone_def)

section \<open>Missing skeletons\<close>

text \<open>
  C7, as the script has it. When the avatar file has no armature the run stops with no
  result, and so it does when the costume file has neither an armature nor a mesh. A
  costume file with a mesh and no armature is processed: when the avatar has an
  armature, both JSON files load and the export goes through, the run has a result.
\<close>

theorem missing_skeleton_fails:
  assumes "avatar_import inp = Some avatar_objects"
  shows "(list_all (\<lambda>obj. obj_type obj \<noteq> ARMATURE) avatar_objects
            \<longrightarrow> run inp \<in> {Inl AvatarNotImported, Inl AvatarArmatureNotFound})
       \<and> (\<forall>selected_objects. costume_import inp = Some selected_objects \<longrightarrow>
            (list_all (\<lambda>obj. obj_type obj \<noteq> ARMATURE \<and> obj_type obj \<noteq> MESH)
                (costume_objects_of avatar_objects selected_objects)
               \<longrightarrow> run inp \<in> {Inl AvatarNotImported, Inl AvatarArmatureNotFound,
                                Inl CostumeNotImported, Inl CostumeContentNotFound})
          \<and> (list_ex (\<lambda>obj. obj_type obj = ARMATURE) avatar_objects
              \<and> list_all (\<lambda>obj. obj_type obj \<noteq> ARMATURE)
                  (costume_objects_of avatar_objects selected_objects)
              \<and> list_ex (\<lambda>obj. obj_type obj = MESH)
                  (costume_objects_of avatar_objects selected_objects)
              \<and> mapping_file inp \<noteq> None \<and> settings_file inp \<noteq> None \<and> export_ok inp
               \<longrightarrow> \<not> isl (run inp)))"
proof (intro conjI allI impI)
  assume "list_all (\<lambda>obj. obj_type obj \<noteq> ARMATURE) avatar_objects"
  then have "find_avatar_armature avatar_objects [] = None"
    by (simp add: find_avatar_armature_None)
  then have "load inp \<in> {Inl AvatarNotImported, Inl AvatarArmatureNotFound}"
    using assms by (simp add: load_def)
  then show "run inp \<in> {Inl AvatarNotImported, Inl AvatarArmatureNotFound}"
    by (auto simp: run_def)
next
  fix selected_objects
  assume sel: "costume_import inp = Some selected_objects"
    and none: "list_all (\<lambda>obj. obj_type obj \<noteq> ARMATURE \<and> obj_type obj \<noteq> MESH)
                 (costume_objects_of avatar_objects selected_objects)"
  have "find_costume (costume_objects_of avatar_objects selected_objects) (None, [], [])
          = (None, [], [] @ costume_objects_of avatar_objects selected_objects)"
    using none by (rule find_costume_no_content)
  then have "load inp \<in> {Inl AvatarNotImported, Inl AvatarArmatureNotFound,
                          Inl CostumeNotImported, Inl CostumeContentNotFound}"
    using assms sel by (simp add: load_def Let_def split: option.splits)
  then show "run inp \<in> {Inl AvatarNotImported, Inl AvatarArmatureNotFound,
                         Inl CostumeNotImported, Inl CostumeContentNotFound}"
    by (auto simp: run_def)
next
  fix selected_objects
  let ?cos = "costume_objects_of avatar_objects selected_objects"
  assume sel: "costume_import inp = Some selected_objects"
    and ok: "list_ex (\<lambda>obj. obj_type obj = ARMATURE) avatar_objects
              \<and> list_all (\<lambda>obj. obj_type obj \<noteq> ARMATURE) ?cos
              \<and> list_ex (\<lambda>obj. obj_type obj = MESH) ?cos
              \<and> mapping_file inp \<noteq> None \<and> settings_file inp \<noteq> None \<and> export_ok inp"
  from ok have "\<not> list_all (\<lambda>obj. obj_type obj \<noteq> ARMATURE) avatar_objects"
    by (auto simp: list_ex_iff list_all_iff)
  then obtain av avr where av: "find_avatar_armature avatar_objects [] = Some (av, avr)"
    using find_avatar_armature_None[of avatar_objects "[]"] by (cases "find_avatar_armature avatar_objects []") auto
  have ne: "avatar_objects \<noteq> []" "?cos \<noteq> []"
    using ok by auto
  obtain arm meshes rest where fc: "find_costume ?cos (None, [], []) = (arm, meshes, rest)"
    by (cases "find_costume ?cos (None, [], [])") auto
  have arm: "arm = None"
    using find_costume_armature[of ?cos None "[]" "[]"] fc ok by simp
  have "meshes = [] @ filter (\<lambda>obj. obj_type obj = MESH) ?cos"
    using find_costume_meshes[of ?cos None "[]" "[]"] fc by simp
  then have meshes: "meshes \<noteq> []"
    using ok by (auto simp: list_ex_iff filter_empty_conv)
  obtain md s where files: "mapping_file inp = Some md" "settings_file inp = Some s"
    using ok by auto
  have l: "load inp = Inr (\<lparr> avatar_armature = av, avatar_rest = avr, costume_armature = None,
                              costume_meshes = meshes, costume_rest = rest \<rparr>, extract_config md s)"
    using assms sel av ne fc arm meshes files by (simp add: load_def Let_def)
  have "\<not> isl (process (setters inp) (extract_config md s)
                 \<lparr> avatar_armature = av, avatar_rest = avr, costume_armature = None,
                   costume_meshes = meshes, costume_rest = rest \<rparr>)"
    by (rule process_no_armature) simp
  then show "\<not> isl (run inp)"
    using l ok by (auto simp: run_def split: sum.splits)
qed

text \<open>An avatar file with a mesh only; a costume file with a light only; a costume
  file with the shirt only.\<close>

theorem missing_skeleton_fails_witness:
  "run ex_no_armature_input = Inl AvatarArmatureNotFound
   \<and> run ex_no_content_input = Inl CostumeContentNotFound
   \<and> \<not> isl (run ex_mesh_only_input)"
proof -
  let ?shirt = "ex_shirt\<lparr>modifiers := [], parent := None\<rparr>"
  have a: "avatar_import ex_no_armature_input = Some [ex_avatar_body]"
    and b: "list_all (\<lambda>obj. obj_type obj \<noteq> ARMATURE) [ex_avatar_body]"
    by (simp_all add: ex_no_armature_input_def ex_input_def ex_avatar_body_def new_object_def)
  have a': "avatar_import ex_no_content_input = Some [ex_avatar_body, ex_avatar_armature]"
    and b': "costume_import ex_no_content_input = Some [new_object ''Light'' OTHER]"
    and c': "list_all (\<lambda>obj. obj_type obj \<noteq> ARMATURE \<and> obj_type obj \<noteq> MESH)
              (costume_objects_of [ex_avatar_body, ex_avatar_armature] [new_object ''Light'' OTHER])"
    by (simp_all add: ex_no_content_input_def ex_input_def costume_objects_of_def new_object_def)
  have a'': "avatar_import ex_mesh_only_input = Some [ex_avatar_body, ex_avatar_armature]"
    and b'': "costume_import ex_mesh_only_input = Some [?shirt]"
    and c'': "costume_objects_of [ex_avatar_body, ex_avatar_armature] [?shirt] = [?shirt]"
    and d'': "list_ex (\<lambda>obj. obj_type obj = ARMATURE) [ex_avatar_body, ex_avatar_armature]"
    and e'': "obj_type ?shirt = MESH"
    and f'': "mapping_file ex_mesh_only_input \<noteq> None \<and> settings_file ex_mesh_only_input \<noteq> None
              \<and> export_ok ex_mesh_only_input"
    by (simp_all add: ex_mesh_only_input_def ex_input_def costume_objects_of_def
          ex_avatar_body_def ex_avatar_armature_def ex_shirt_def new_object_def)
  have 1: "run ex_no_armature_input = Inl AvatarArmatureNotFound"
    using missing_skeleton_fails[OF a] b
    by (auto simp: run_def load_def ex_no_armature_input_def ex_input_def
          ex_avatar_body_def new_object_def)
  have 2: "run ex_no_content_input = Inl CostumeContentNotFound"
    using missing_skeleton_fails[OF a'] b' c'
    by (auto simp: run_def load_def ex_no_content_input_def ex_input_def costume_objects_of_def
          ex_avatar_body_def ex_avatar_armature_def new_object_def)
  have 3: "\<not> isl (run ex_mesh_only_input)"
  proof (rule missing_skeleton_fails[OF a'', THEN conjunct2, rule_format, OF b'',
                 THEN conjunct2, rule_format])
    show "list_ex (\<lambda>obj. obj_type obj = ARMATURE) [ex_avatar_body, ex_avatar_armature]
          \<and> list_all (\<lambda>obj. obj_type obj \<noteq> ARMATURE)
              (costume_objects_of [ex_avatar_body, ex_avatar_armature] [?shirt])
          \<and> list_ex (\<lambda>obj. obj_type obj = MESH)
              (costume_objects_of [ex_avatar_body, ex_avatar_armature] [?shirt])
          \<and> mapping_file ex_mesh_only_input \<noteq> None \<and> settings_file ex_mesh_only_input \<noteq> None
          \<and> export_ok ex_mesh_only_input"
      using d'' e'' f'' unfolding c'' by simp
  qed
  show ?thesis using 1 2 3 by simp
qed

text \<open>
  The claim as the specification states it fails for a costume file that holds the
  shirt and no armature: the run reaches the export, with the avatar armature and the
  shirt as its result (line 89 stops the run only when there is no mesh either).
\<close>

theorem costume_without_armature_counterexample:
  "map obj_type (the (costume_import ex_mesh_only_input)) = [MESH]
   \<and> \<not> isl (run ex_mesh_only_input)
   \<and> map obj_name (exported (projr (run ex_mesh_only_input))) = [''Armature'', ''Shirt'']"
  by code_simp

section \<open>The exported scene\<close>




section \<open>Renaming\<close>

text \<open>
  C9, as the script has it. Through a run that reaches the export, a vertex group of a
  costume mesh whose name is not a key of the bone mapping keeps its name, and a costume
  bone whose name is not a key is left as it is by the processing of the costume armature
  (lines 134-147; the armature is removed from the scene afterwards): renaming touches
  only names that are keys.
\<close>

theorem names_outside_mapping_kept:
  assumes "load inp = Inr (st, c)" and "run inp = Inr st'"
  shows "length (costume_meshes st') = length (costume_meshes st)
     \<and> (\<forall>k<length (costume_meshes st).
          length (vertex_groups (costume_meshes st' ! k))
            = length (vertex_groups (costume_meshes st ! k))
        \<and> (\<forall>i<length (vertex_groups (costume_meshes st ! k)).
             vertex_groups (costume_meshes st ! k) ! i \<notin> dom (bone_mapping c)
               \<longrightarrow> vertex_groups (costume_meshes st' ! k) ! i
                     = vertex_groups (costume_meshes st ! k) ! i))
     \<and> (\<forall>arm. costume_armature st = Some arm \<longrightarrow>
          length (bones (fst (process_costume_armature (setters inp) c (arm, costume_meshes st))))
            = length (bones arm)
        \<and> (\<forall>b<length (bones arm).
             bone_name (bones arm ! b) \<notin> dom (bone_mapping c)
               \<longrightarrow> bones (fst (process_costume_armature (setters inp) c (arm, costume_meshes st))) ! b
                     = bones arm ! b))"
proof -
  note p = run_Inr[OF assms]
  note len = final_mesh(1)[OF p]
  have groups: "\<forall>k<length (costume_meshes st).
          length (vertex_groups (costume_meshes st' ! k))
            = length (vertex_groups (costume_meshes st ! k))
        \<and> (\<forall>i<length (vertex_groups (costume_meshes st ! k)).
             vertex_groups (costume_meshes st ! k) ! i \<notin> dom (bone_mapping c)
               \<longrightarrow> vertex_groups (costume_meshes st' ! k) ! i
                     = vertex_groups (costume_meshes st ! k) ! i)"
    using final_groups[OF p] by (auto simp: dom_def)
  have bns: "length (bones (fst (process_costume_armature (setters inp) c (arm, costume_meshes st))))
            = length (bones arm)
        \<and> (\<forall>b<length (bones arm).
             bone_name (bones arm ! b) \<notin> dom (bone_mapping c)
               \<longrightarrow> bones (fst (process_costume_armature (setters inp) c (arm, costume_meshes st))) ! b
                     = bones arm ! b)" for arm
    using process_costume_armature_frame(1)[of c "(arm, costume_meshes st)" "setters inp"]
    by (auto simp: bones_frame_def dom_def)
  show ?thesis using len groups bns by blast
qed

text \<open>The example run: \<open>Sleeve\<close> is no key; the group and the bone keep the name.\<close>

theorem names_outside_mapping_kept_witness:
  "load ex_input = Inr (ex_loaded, ex_config) \<and> run ex_input = Inr ex_final
   \<and> costume_armature ex_loaded = Some ex_costume_armature
   \<and> costume_meshes ex_loaded = [ex_shirt] \<and> costume_meshes ex_final = [ex_shirt_final]
   \<and> bone_mapping ex_config ''Sleeve'' = None
   \<and> vertex_groups ex_shirt ! 2 = ''Sleeve''
   \<and> vertex_groups ex_shirt_final ! 2 = ''Sleeve''
   \<and> bone_name (bones ex_costume_armature ! 2) = ''Sleeve''
   \<and> bones (fst (process_costume_armature (setters ex_input) ex_config
         (ex_costume_armature, [ex_shirt]))) ! 2 = bones ex_costume_armature ! 2"
proof -
  have m: "costume_armature ex_loaded = Some ex_costume_armature"
    "costume_meshes ex_loaded = [ex_shirt]" "costume_meshes ex_final = [ex_shirt_final]"
    by (simp_all add: ex_loaded_def ex_final_def)
  have b: "bone_mapping ex_config ''Sleeve'' = None"
    by (simp add: ex_config_def ex_mapping_def extract_config_def process_bone_mapping_def
          add_mapping_def)
  have n: "vertex_groups ex_shirt ! 2 = ''Sleeve''" "length (vertex_groups ex_shirt) = 3"
    "bone_name (bones ex_costume_armature ! 2) = ''Sleeve''" "length (bones ex_costume_armature) = 3"
    by (simp_all add: ex_shirt_def ex_costume_armature_def new_object_def new_bone_def)
  note t = names_outside_mapping_kept[OF ex_load ex_run]
  have g: "vertex_groups ex_shirt_final ! 2 = ''Sleeve''"
    using t m b n by (auto simp: dom_def)
  have "bones (fst (process_costume_armature (setters ex_input) ex_config
         (ex_costume_armature, [ex_shirt]))) ! 2 = bones ex_costume_armature ! 2"
    using t m b n by (auto simp: dom_def)
  then show ?thesis
    using m b n g by (simp add: ex_load ex_run)
qed

text \<open>
  The claim as the specification states it, that renaming touches exactly the keys,
  fails for a costume file with the shirt only: \<open>Sleeve\<close> is a key, mapped to \<open>Ghost\<close>,
  and without a costume armature line 160 skips the loop, the group keeps its name.
\<close>

theorem key_named_group_untouched_counterexample:
  "process_bone_mapping ex_ghost_mapping ''Sleeve'' = Some ''Ghost''
   \<and> map obj_type (the (costume_import ex_mesh_only_ghost_input)) = [MESH]
   \<and> map vertex_groups (the (costume_import ex_mesh_only_ghost_input))
       = [[''Hip'', ''Chest'', ''Sleeve'']]
   \<and> \<not> isl (run ex_mesh_only_ghost_input)
   \<and> map vertex_groups (costume_meshes (projr (run ex_mesh_only_ghost_input)))
       = [[''Hip'', ''Chest'', ''Sleeve'']]"
  by code_simp

end
